theory Spec2Isabelle
  imports Complex_Main
begin

section \<open>Python values used by the sources\<close>

text \<open>
  Exceptions are values. \<open>IndexError\<close> is what indexing out of range raises; every
  failure of a collaborator (embedding model, Chroma collection, completion service, file
  system) is a \<open>ServiceError\<close> carrying its message. \<open>error_text\<close> is \<open>str(e)\<close>; the
  sources take it of the exceptions of list indexing only (\<open>response.choices[0]\<close> and
  \<open>results['metadatas'][0]\<close>), whose message is the one given here.
\<close>

datatype error = IndexError | ServiceError string

fun error_text :: "error \<Rightarrow> string" where
  "error_text IndexError = ''list index out of range''"
| "error_text (ServiceError msg) = msg"

text \<open>
  A character of a \<open>string\<close> stands for one code point of a Python \<open>str\<close> (texts are
  restricted to the first 256 code points), so \<open>length\<close> is \<open>len\<close>.
  \<open>is_space\<close> lists the code points below 256 that \<open>str.strip()\<close> removes.
\<close>

definition is_space :: "char \<Rightarrow> bool" where
  "is_space c = ((of_char c :: nat) \<in> {9, 10, 11, 12, 13, 28, 29, 30, 31, 32, 133, 160})"

definition strip :: "string \<Rightarrow> string" where
  "strip s = rev (dropWhile is_space (rev (dropWhile is_space s)))"

text \<open>
  Python reads a negative position from the end of the sequence: position \<open>i < 0\<close> of
  a sequence of length \<open>n\<close> stands for \<open>i + n\<close>.
\<close>

definition from_end :: "int \<Rightarrow> int \<Rightarrow> int" where
  "from_end n i = (if i < 0 then i + n else i)"

text \<open>\<open>xs[i]\<close> raises when the position, read from the end if negative, is outside the
  sequence.\<close>

definition py_index :: "'a list \<Rightarrow> int \<Rightarrow> error + 'a" where
  "py_index xs i =
     (if from_end (int (length xs)) i < 0 \<or> int (length xs) \<le> from_end (int (length xs)) i
      then Inl IndexError
      else Inr (xs ! nat (from_end (int (length xs)) i)))"

text \<open>
  \<open>xs[a:b]\<close> and \<open>xs[a:]\<close>: a negative bound counts from the end, then both bounds are
  clamped to \<open>[0, len]\<close>; a slice never raises.
\<close>

definition slice_bound :: "int \<Rightarrow> int \<Rightarrow> nat" where
  "slice_bound n i = nat (max 0 (min n (from_end n i)))"

definition py_slice :: "'a list \<Rightarrow> int \<Rightarrow> int \<Rightarrow> 'a list" where
  "py_slice xs a b =
     (let n = int (length xs) in drop (slice_bound n a) (take (slice_bound n b) xs))"

definition py_slice_from :: "'a list \<Rightarrow> int \<Rightarrow> 'a list" where
  "py_slice_from xs a = drop (slice_bound (int (length xs)) a) xs"

text \<open>\<open>range(hi, lo, -1)\<close>: \<open>hi, hi - 1, ..., lo + 1\<close>.\<close>

definition py_range_down :: "int \<Rightarrow> int \<Rightarrow> int list" where
  "py_range_down hi lo = rev [lo + 1 .. hi]"

text \<open>\<open>sep.join(parts)\<close>.\<close>

fun join :: "string \<Rightarrow> string list \<Rightarrow> string" where
  "join sep [] = []"
| "join sep [p] = p"
| "join sep (p # q # ps) = p @ sep @ join sep (q # ps)"

text \<open>\<open>str(n)\<close> for a non-negative integer, as the f-strings print it.\<close>

definition digit_char :: "nat \<Rightarrow> char" where
  "digit_char d = char_of (48 + d)"

fun show_nat :: "nat \<Rightarrow> string" where
  "show_nat n = (if n < 10 then [digit_char n] else show_nat (n div 10) @ [digit_char (n mod 10)])"

declare show_nat.simps [simp del]

definition show_int :: "int \<Rightarrow> string" where
  "show_int i = (if i < 0 then CHR ''-'' # show_nat (nat (- i)) else show_nat (nat i))"

definition newline :: char where
  "newline = CHR 0x0A"


section \<open>utils.py: the chunker\<close>

text \<open>
  The backward search of \<open>chunk_text\<close> for a sentence end:
  \<^verbatim>\<open>for i in range(end, max(start + chunk_size - 100, start), -1):
      if text[i] in '.!?': end = i + 1; break\<close>
  The result is the new \<open>end\<close> if a terminator is found, \<open>None\<close> if the range is
  exhausted, and the exception of \<open>text[i]\<close> if \<open>i\<close> is out of range.
\<close>

fun find_sentence_end :: "string \<Rightarrow> int list \<Rightarrow> error + int option" where
  "find_sentence_end text [] = Inr None"
| "find_sentence_end text (i # is) =
     (case py_index text i of
        Inl e \<Rightarrow> Inl e
      | Inr c \<Rightarrow> if c \<in> set ''.!?'' then Inr (Some (i + 1)) else find_sentence_end text is)"

definition chunk_end :: "string \<Rightarrow> int \<Rightarrow> int \<Rightarrow> error + int" where
  "chunk_end text chunk_size start =
     (let end = start + chunk_size in
      if end < int (length text) then
        (case find_sentence_end text (py_range_down end (max (start + chunk_size - 100) start)) of
           Inl e \<Rightarrow> Inl e
         | Inr None \<Rightarrow> Inr end
         | Inr (Some e) \<Rightarrow> Inr e)
      else Inr end)"

text \<open>
  The \<open>while start < len(text)\<close> loop. It has no bound on the number of iterations, so
  its model is a partial function: \<open>None\<close> means that the loop never returns,
  \<open>Some (Inl e)\<close> that it raises \<open>e\<close>, \<open>Some (Inr chunks)\<close> that it returns \<open>chunks\<close>.
\<close>

partial_function (option) chunk_loop ::
  "string \<Rightarrow> int \<Rightarrow> int \<Rightarrow> int \<Rightarrow> string list \<Rightarrow> (error + string list) option" where
  "chunk_loop text chunk_size overlap start chunks =
     (if start < int (length text) then
        (case chunk_end text chunk_size start of
           Inl e \<Rightarrow> Some (Inl e)
         | Inr end \<Rightarrow>
             (let chunk = strip (py_slice text start end);
                  chunks' = (if chunk \<noteq> [] then chunks @ [chunk] else chunks);
                  start' = end - overlap
              in if start' \<ge> int (length text) then Some (Inr chunks')
                 else chunk_loop text chunk_size overlap start' chunks'))
      else Some (Inr chunks))"

declare chunk_loop.simps [code]

definition chunk_text :: "string \<Rightarrow> int \<Rightarrow> int \<Rightarrow> (error + string list) option" where
  "chunk_text text chunk_size overlap =
     (if int (length text) \<le> chunk_size then Some (Inr [text])
      else chunk_loop text chunk_size overlap 0 [])"

text \<open>One iteration of the loop seen from the cursor: the next value of \<open>start\<close>.\<close>

definition next_start :: "string \<Rightarrow> int \<Rightarrow> int \<Rightarrow> int \<Rightarrow> error + int" where
  "next_start text chunk_size overlap start =
     (case chunk_end text chunk_size start of Inl e \<Rightarrow> Inl e | Inr end \<Rightarrow> Inr (end - overlap))"

text \<open>A chunk is trimmed when \<open>strip\<close> leaves it as it is.\<close>

definition trimmed :: "string \<Rightarrow> bool" where
  "trimmed c = (strip c = c)"


section \<open>vector_store.py: index, retrieval and context assembly\<close>

text \<open>
  Chroma metadata values are strings or integers; \<open>py_str\<close> is \<open>str(v)\<close>, which the
  f-strings apply. A metadata dict is a map from keys to values.
\<close>

datatype mvalue = MStr string | MInt int

fun py_str :: "mvalue \<Rightarrow> string" where
  "py_str (MStr s) = s"
| "py_str (MInt i) = show_int i"

type_synonym metadata = "string \<rightharpoonup> mvalue"

text \<open>
  A scraped page as \<open>load_data\<close> reads it from JSON. Every key is read with
  \<open>doc.get(key, default)\<close>, so every field may be absent.
\<close>

record document =
  doc_url :: "string option"
  doc_title :: "string option"
  doc_chunks :: "string list option"
  doc_metadata :: "metadata option"

record index_entry =
  entry_id :: string
  entry_embedding :: "real list"
  entry_document :: string
  entry_metadata :: metadata

text \<open>The answer of \<open>collection.query\<close>: one inner list per query embedding.\<close>

record query_result =
  documents :: "string list list"
  metadatas :: "metadata list list"
  distances :: "real list list"

record search_result =
  content :: string
  metadata :: metadata
  similarity_score :: real
  rank :: nat

record message =
  msg_role :: string
  msg_content :: string

text \<open>
  The collaborators, which the sources reach through module-level handles. Each is a
  function that returns \<open>Inl e\<close> where the call raises \<open>e\<close>; nothing is assumed about
  them. \<open>now k\<close> is the value of the \<open>k\<close>-th call of \<open>datetime.now().isoformat()\<close>
  in a request. Floating-point numbers are read as reals.
\<close>

record services =
  encode :: "string list \<Rightarrow> error + real list list"
  collection_query :: "index_entry list \<Rightarrow> real list list \<Rightarrow> int \<Rightarrow> error + query_result"
  collection_add ::
    "index_entry list \<Rightarrow> real list list \<Rightarrow> string list \<Rightarrow> metadata list \<Rightarrow> string list
       \<Rightarrow> error + index_entry list"
  load_data :: "string \<Rightarrow> error + document list"
  completions_create :: "string \<Rightarrow> message list \<Rightarrow> real \<Rightarrow> int \<Rightarrow> error + string option list"
  now :: "nat \<Rightarrow> string"

record vector_store =
  collection :: "index_entry list"
  embedding_model_name :: string

definition count :: "vector_store \<Rightarrow> nat" where
  "count vs = length (collection vs)"

definition create_embeddings :: "services \<Rightarrow> string list \<Rightarrow> real list list" where
  "create_embeddings sv texts = (case encode sv texts of Inl e \<Rightarrow> [] | Inr embeddings \<Rightarrow> embeddings)"

text \<open>The inner loop of \<open>add_documents\<close> for document number \<open>i\<close>: text, metadata and id
  of every chunk that is not blank.\<close>

definition chunk_metadata :: "document \<Rightarrow> nat \<Rightarrow> metadata" where
  "chunk_metadata doc j =
     [''url'' \<mapsto> MStr (case doc_url doc of None \<Rightarrow> [] | Some u \<Rightarrow> u),
      ''title'' \<mapsto> MStr (case doc_title doc of None \<Rightarrow> [] | Some t \<Rightarrow> t),
      ''chunk_index'' \<mapsto> MInt (int j),
      ''total_chunks'' \<mapsto> MInt (int (length (case doc_chunks doc of None \<Rightarrow> [] | Some cs \<Rightarrow> cs)))]
     ++ (case doc_metadata doc of None \<Rightarrow> Map.empty | Some m \<Rightarrow> m)"

definition chunk_id :: "nat \<Rightarrow> nat \<Rightarrow> string" where
  "chunk_id i j = ''doc_'' @ show_nat i @ ''_chunk_'' @ show_nat j"

definition document_rows :: "nat \<Rightarrow> document \<Rightarrow> (string \<times> metadata \<times> string) list" where
  "document_rows i doc =
     concat (map (\<lambda>(j, chunk). if strip chunk \<noteq> [] then [(chunk, chunk_metadata doc j, chunk_id i j)] else [])
                 (enumerate 0 (case doc_chunks doc of None \<Rightarrow> [] | Some cs \<Rightarrow> cs)))"

definition add_documents :: "services \<Rightarrow> document list \<Rightarrow> vector_store \<Rightarrow> bool \<times> vector_store" where
  "add_documents sv docs vs =
     (let rows = concat (map (\<lambda>(i, doc). document_rows i doc) (enumerate 0 docs));
          all_texts = map fst rows;
          all_metadatas = map (fst \<circ> snd) rows;
          all_ids = map (snd \<circ> snd) rows
      in if all_texts = [] then (False, vs)
         else let embeddings = create_embeddings sv all_texts in
           if embeddings = [] then (False, vs)
           else (case collection_add sv (collection vs) embeddings all_texts all_metadatas all_ids of
                   Inl e \<Rightarrow> (False, vs)
                 | Inr coll \<Rightarrow> (True, vs\<lparr>collection := coll\<rparr>)))"

text \<open>
  \<open>search\<close>, lines 107 to 119: the formatting of a query answer. \<open>zip\<close> stops at the
  shortest of its three lists; \<open>results['metadatas'][0]\<close> raises when the list is empty.
\<close>

definition format_results :: "query_result \<Rightarrow> error + search_result list" where
  "format_results results =
     (if documents results \<noteq> [] \<and> hd (documents results) \<noteq> [] then
        (case metadatas results of
           [] \<Rightarrow> Inl IndexError
         | ms # _ \<Rightarrow>
            (case distances results of
               [] \<Rightarrow> Inl IndexError
             | ds # _ \<Rightarrow>
                 Inr (map (\<lambda>(i, doc, m, distance).
                             \<lparr>content = doc, metadata = m, similarity_score = 1 - distance, rank = i + 1\<rparr>)
                          (enumerate 0 (zip (hd (documents results)) (zip ms ds))))))
      else Inr [])"

text \<open>
  \<open>search\<close> returns a list and writes one line to the log. The model returns both: the
  first component is the line logged (the level and the text), the second the list that
  the caller receives.
\<close>

datatype log_line = LogInfo string | LogError string

definition search_error :: "error \<Rightarrow> log_line list \<times> search_result list" where
  "search_error e = ([LogError (''Error searching vector store: '' @ error_text e)], [])"

definition search ::
  "services \<Rightarrow> vector_store \<Rightarrow> string \<Rightarrow> int \<Rightarrow> log_line list \<times> search_result list" where
  "search sv vs query n_results =
     (case encode sv [query] of
        Inl e \<Rightarrow> search_error e
      | Inr query_embedding \<Rightarrow>
         (case collection_query sv (collection vs) query_embedding n_results of
            Inl e \<Rightarrow> search_error e
          | Inr results \<Rightarrow>
             (case format_results results of
                Inl e \<Rightarrow> search_error e
              | Inr formatted_results \<Rightarrow>
                  ([LogInfo (''Found '' @ show_nat (length formatted_results)
                             @ '' relevant documents for query: '' @ py_slice query 0 50 @ ''...'')],
                   formatted_results))))"

record collection_stats =
  total_documents :: nat
  collection_name :: string
  embedding_model :: string

definition get_collection_stats :: "vector_store \<Rightarrow> collection_stats" where
  "get_collection_stats vs =
     \<lparr>total_documents = count vs, collection_name = ''pmc_documents'',
      embedding_model = embedding_model_name vs\<rparr>"

definition load_and_index_data :: "services \<Rightarrow> string \<Rightarrow> vector_store \<Rightarrow> bool \<times> vector_store" where
  "load_and_index_data sv data_file vs =
     (if count vs > 0 then (True, vs)
      else (case load_data sv data_file of
              Inl e \<Rightarrow> (False, vs)
            | Inr docs \<Rightarrow> if docs = [] then (False, vs) else add_documents sv docs vs))"

text \<open>
  \<open>get_relevant_context\<close>, lines 190 to 204: the loop over the results with its
  \<open>break\<close>, returning \<open>context_parts\<close> and \<open>current_tokens\<close>, then the join.
\<close>

definition estimated_tokens :: "search_result \<Rightarrow> int" where
  "estimated_tokens result = int (length (content result)) div 4"

definition context_part :: "search_result \<Rightarrow> string" where
  "context_part result =
     ''Source: '' @ (case metadata result ''title'' of None \<Rightarrow> ''Unknown'' | Some v \<Rightarrow> py_str v)
       @ [newline] @ content result"

fun accumulate :: "search_result list \<Rightarrow> int \<Rightarrow> string list \<Rightarrow> int \<Rightarrow> string list \<times> int" where
  "accumulate [] max_tokens context_parts current_tokens = (context_parts, current_tokens)"
| "accumulate (result # results) max_tokens context_parts current_tokens =
     (if current_tokens + estimated_tokens result > max_tokens then (context_parts, current_tokens)
      else accumulate results max_tokens (context_parts @ [context_part result])
             (current_tokens + estimated_tokens result))"

definition assemble :: "search_result list \<Rightarrow> int \<Rightarrow> string" where
  "assemble results max_tokens =
     (if results = [] then []
      else join [newline, newline] (fst (accumulate results max_tokens [] 0)))"

definition get_relevant_context :: "services \<Rightarrow> vector_store \<Rightarrow> string \<Rightarrow> int \<Rightarrow> string" where
  "get_relevant_context sv vs query max_tokens = assemble (snd (search sv vs query 10)) max_tokens"

text \<open>
  The results that the loop includes, as search results rather than as rendered blocks:
  the same loop, collecting \<open>result\<close> instead of its block.
\<close>

fun included :: "search_result list \<Rightarrow> int \<Rightarrow> int \<Rightarrow> search_result list" where
  "included [] max_tokens current_tokens = []"
| "included (result # results) max_tokens current_tokens =
     (if current_tokens + estimated_tokens result > max_tokens then []
      else result # included results max_tokens (current_tokens + estimated_tokens result))"

text \<open>The cost that \<open>len / 4\<close> gives to the rendered blocks themselves.\<close>

definition rendered_cost :: "string list \<Rightarrow> int" where
  "rendered_cost blocks = (\<Sum>b\<leftarrow>blocks. int (length b) div 4)"


section \<open>chatbot.py: the conversation\<close>

text \<open>An entry of \<open>conversation_history\<close>: a dict with the keys role, content, timestamp.\<close>

record turn =
  turn_role :: string
  turn_content :: string
  turn_timestamp :: string

record chatbot =
  model_name :: string
  temperature :: real
  max_tokens :: int
  system_prompt :: string
  vector_store :: vector_store
  conversation_history :: "turn list"

text \<open>
  The two dicts that \<open>get_response\<close> returns: \<open>response_data\<close> (response, context_used,
  context_length, timestamp, model_used) and \<open>error_response\<close> (response, error,
  timestamp).
\<close>

datatype response = ResponseData "string option" bool nat string string | ErrorResponse string string string

definition apology :: string where
  "apology = ''I apologize, but I'' @ [CHR 0x27] @ ''m experiencing technical difficulties. Please try again later.''"

definition context_message :: "string \<Rightarrow> string" where
  "context_message context =
     ''Use the following information from the PMO website to answer the user'' @ [CHR 0x27]
     @ ''s question:'' @ [newline, newline] @ context @ [newline, newline]
     @ ''Please provide a helpful response based on this information. If the information doesn''
     @ [CHR 0x27] @ ''t answer the question completely, say so.''"

text \<open>Lines 76 to 80: a turn is forwarded when its role is user or assistant.\<close>

definition forward :: "turn \<Rightarrow> message list" where
  "forward msg =
     (if turn_role msg = ''user'' then [\<lparr>msg_role = ''user'', msg_content = turn_content msg\<rparr>]
      else if turn_role msg = ''assistant'' then [\<lparr>msg_role = ''assistant'', msg_content = turn_content msg\<rparr>]
      else [])"

definition recent_history :: "turn list \<Rightarrow> turn list" where
  "recent_history history = py_slice_from history (- 10)"

text \<open>Lines 62 to 80: the messages sent to the completion service.\<close>

definition build_messages :: "string \<Rightarrow> string \<Rightarrow> turn list \<Rightarrow> message list" where
  "build_messages sys_prompt context history =
     [\<lparr>msg_role = ''system'', msg_content = sys_prompt\<rparr>]
     @ (if context \<noteq> [] then [\<lparr>msg_role = ''system'', msg_content = context_message context\<rparr>] else [])
     @ concat (map forward (recent_history history))"

definition user_turn :: "services \<Rightarrow> string \<Rightarrow> turn" where
  "user_turn sv user_message =
     \<lparr>turn_role = ''user'', turn_content = user_message, turn_timestamp = now sv 0\<rparr>"

definition request_context :: "services \<Rightarrow> chatbot \<Rightarrow> string \<Rightarrow> bool \<Rightarrow> string" where
  "request_context sv self user_message use_context =
     (if use_context then get_relevant_context sv (vector_store self) user_message 2000 else [])"

definition request_messages :: "services \<Rightarrow> chatbot \<Rightarrow> string \<Rightarrow> bool \<Rightarrow> message list" where
  "request_messages sv self user_message use_context =
     build_messages (system_prompt self) (request_context sv self user_message use_context)
       (conversation_history self @ [user_turn sv user_message])"

text \<open>
  \<open>get_response\<close> runs three steps on the chatbot, each of which is given the chatbot
  that the step before it left. Lines 50 to 55 append the user turn.
\<close>

definition record_user_turn :: "services \<Rightarrow> string \<Rightarrow> chatbot \<Rightarrow> chatbot" where
  "record_user_turn sv user_message self =
     self\<lparr>conversation_history := conversation_history self @ [user_turn sv user_message]\<rparr>"

text \<open>
  Lines 57 to 80 build the context and the messages from the chatbot as it is then.
  The result is what was built and the chatbot after the step.
\<close>

definition build_prompt ::
  "services \<Rightarrow> string \<Rightarrow> bool \<Rightarrow> chatbot \<Rightarrow> (string \<times> message list) \<times> chatbot" where
  "build_prompt sv user_message use_context self =
     (let context = request_context sv self user_message use_context;
          messages = build_messages (system_prompt self) context (conversation_history self)
      in ((context, messages), self))"

text \<open>
  Lines 82 to 118 call the completion service and record its answer. The \<open>except\<close>
  branch is reached when \<open>completions.create\<close> raises and when \<open>response.choices[0]\<close>
  does (no choice in the answer); \<open>assistant_message\<close> is the content of the first
  choice, \<open>None\<close> for a null completion. The value of \<open>get_response\<close> is the dict
  returned and the chatbot after the call.
\<close>

definition get_response :: "services \<Rightarrow> string \<Rightarrow> bool \<Rightarrow> chatbot \<Rightarrow> response \<times> chatbot" where
  "get_response sv user_message use_context self =
     (let self1 = record_user_turn sv user_message self;
          ((context, messages), self2) = build_prompt sv user_message use_context self1
      in case completions_create sv (model_name self2) messages (temperature self2) (max_tokens self2) of
           Inl e \<Rightarrow> (ErrorResponse apology (error_text e) (now sv 1), self2)
         | Inr [] \<Rightarrow> (ErrorResponse apology (error_text IndexError) (now sv 1), self2)
         | Inr (assistant_message # _) \<Rightarrow>
             (ResponseData assistant_message (context \<noteq> []) (length context) (now sv 2) (model_name self2),
              self2\<lparr>conversation_history := conversation_history self2 @
                 [\<lparr>turn_role = ''assistant'',
                   turn_content = (case assistant_message of None \<Rightarrow> [] | Some m \<Rightarrow> m),
                   turn_timestamp = now sv 1\<rparr>]\<rparr>))"

definition search_documents :: "services \<Rightarrow> chatbot \<Rightarrow> string \<Rightarrow> int \<Rightarrow> search_result list" where
  "search_documents sv self query n_results = snd (search sv (vector_store self) query n_results)"

record system_info =
  info_model_name :: string
  info_temperature :: real
  info_max_tokens :: int
  vector_store_stats :: collection_stats
  conversation_length :: nat

definition get_system_info :: "chatbot \<Rightarrow> system_info" where
  "get_system_info self =
     \<lparr>info_model_name = model_name self, info_temperature = temperature self,
      info_max_tokens = max_tokens self,
      vector_store_stats = get_collection_stats (vector_store self),
      conversation_length = length (conversation_history self)\<rparr>"


section \<open>The history as an object: references and copies\<close>

text \<open>
  \<open>conversation_history\<close> is a Python list object that holds references to dict objects,
  and \<open>get_conversation_history\<close> hands a list to code outside the chatbot. Whether that
  code can change the chatbot's history depends on which objects are shared, so here the
  objects live in a heap: a list object is a list of references to dicts, and a reference
  is the position of its object in the heap.
\<close>

type_synonym ref = nat

record heap =
  list_objects :: "ref list list"
  dict_objects :: "turn list"

text \<open>\<open>list.copy()\<close>: a new list object with the same elements (the dicts are not copied).\<close>

definition list_copy :: "ref \<Rightarrow> heap \<Rightarrow> ref \<times> heap" where
  "list_copy l h = (length (list_objects h), h\<lparr>list_objects := list_objects h @ [list_objects h ! l]\<rparr>)"

text \<open>\<open>get_conversation_history\<close>, for a chatbot whose \<open>conversation_history\<close> attribute
  refers to the list object \<open>history\<close>.\<close>

definition get_conversation_history :: "ref \<Rightarrow> heap \<Rightarrow> ref \<times> heap" where
  "get_conversation_history history h = list_copy history h"

text \<open>The turns that a list object shows to its reader.\<close>

definition turns_of :: "heap \<Rightarrow> ref \<Rightarrow> turn list" where
  "turns_of h l = map (\<lambda>d. dict_objects h ! d) (list_objects h ! l)"

text \<open>
  What a caller can do to a list it holds: \<open>append\<close>, \<open>insert\<close>, \<open>pop\<close> (which raises on
  an empty list or an index out of range), \<open>clear\<close>, \<open>reverse\<close>, and any rearrangement
  of the elements such as \<open>sort\<close> with a key. An operation that raises changes nothing.
\<close>

datatype list_op = Append ref | Insert int ref | Pop int | Clear | Reverse | Rearrange "ref list \<Rightarrow> ref list"

fun apply_list_op :: "list_op \<Rightarrow> ref list \<Rightarrow> error + ref list" where
  "apply_list_op (Append x) xs = Inr (xs @ [x])"
| "apply_list_op (Insert i x) xs =
     (let k = slice_bound (int (length xs)) i in Inr (take k xs @ [x] @ drop k xs))"
| "apply_list_op (Pop i) xs =
     (case py_index xs i of
        Inl e \<Rightarrow> Inl e
      | Inr x \<Rightarrow> Inr (take (nat (from_end (int (length xs)) i)) xs
                      @ drop (Suc (nat (from_end (int (length xs)) i))) xs))"
| "apply_list_op Clear xs = Inr []"
| "apply_list_op Reverse xs = Inr (rev xs)"
| "apply_list_op (Rearrange f) xs = Inr (f xs)"

definition mutate_list :: "ref \<Rightarrow> list_op \<Rightarrow> heap \<Rightarrow> heap" where
  "mutate_list l opn h =
     (case apply_list_op opn (list_objects h ! l) of
        Inl e \<Rightarrow> h
      | Inr xs \<Rightarrow> h\<lparr>list_objects := (list_objects h)[l := xs]\<rparr>)"

fun mutate_all :: "ref \<Rightarrow> list_op list \<Rightarrow> heap \<Rightarrow> heap" where
  "mutate_all l [] h = h"
| "mutate_all l (opn # ops) h = mutate_all l ops (mutate_list l opn h)"

text \<open>Writing a key of a dict object, as \<open>returned[i]['content'] = text\<close> does.\<close>

definition set_content :: "ref \<Rightarrow> string \<Rightarrow> heap \<Rightarrow> heap" where
  "set_content d c h = h\<lparr>dict_objects := (dict_objects h)[d := (dict_objects h ! d)\<lparr>turn_content := c\<rparr>]\<rparr>"


section \<open>Concrete collaborators and inputs\<close>

text \<open>
  Services that always fail, services that answer every query with a fixed result and
  every completion request with fixed choices, and small values of the state.
\<close>

definition failing_services :: services where
  "failing_services =
     \<lparr>encode = (\<lambda>texts. Inl (ServiceError ''unreachable'')),
      collection_query = (\<lambda>coll emb n. Inl (ServiceError ''unreachable'')),
      collection_add = (\<lambda>coll embs texts metas ids. Inl (ServiceError ''unreachable'')),
      load_data = (\<lambda>file. Inl (ServiceError ''unreachable'')),
      completions_create = (\<lambda>model messages temp limit. Inl (ServiceError ''unreachable'')),
      now = (\<lambda>k. ''2024-01-01T00:00:0'' @ show_nat k)\<rparr>"

definition example_query_result :: query_result where
  "example_query_result =
     \<lparr>documents = [[''alpha'', ''beta'', ''gamma'']],
      metadatas = [[[''title'' \<mapsto> MStr ''A''], [''title'' \<mapsto> MStr ''B''], Map.empty]],
      distances = [[1 / 4, 1 / 2, 1]]\<rparr>"

definition working_services :: "query_result \<Rightarrow> string option list \<Rightarrow> services" where
  "working_services answer choices =
     \<lparr>encode = (\<lambda>texts. Inr (map (\<lambda>t. [0, 1]) texts)),
      collection_query = (\<lambda>coll emb n. Inr answer),
      collection_add = (\<lambda>coll embs texts metas ids.
         Inr (coll @ map (\<lambda>(i, e, t, m). \<lparr>entry_id = i, entry_embedding = e, entry_document = t, entry_metadata = m\<rparr>)
                        (zip ids (zip embs (zip texts metas))))),
      load_data = (\<lambda>file. Inr []),
      completions_create = (\<lambda>model messages temp limit. Inr choices),
      now = (\<lambda>k. ''2024-01-01T00:00:0'' @ show_nat k)\<rparr>"

definition empty_query_result :: query_result where
  "empty_query_result = \<lparr>documents = [[]], metadatas = [[]], distances = [[]]\<rparr>"

definition example_store :: vector_store where
  "example_store =
     \<lparr>collection = [\<lparr>entry_id = ''doc_0_chunk_0'', entry_embedding = [0, 1],
                     entry_document = ''alpha'', entry_metadata = [''title'' \<mapsto> MStr ''A'']\<rparr>],
      embedding_model_name = ''all-MiniLM-L6-v2''\<rparr>"

definition example_chatbot :: chatbot where
  "example_chatbot =
     \<lparr>model_name = ''gpt-3.5-turbo'', temperature = 7 / 10, max_tokens = 1000,
      system_prompt = ''You are an AI assistant.'', vector_store = example_store,
      conversation_history = []\<rparr>"

definition result_of_length :: "nat \<Rightarrow> search_result" where
  "result_of_length n =
     \<lparr>content = replicate n CHR ''a'', metadata = Map.empty, similarity_score = 1, rank = 1\<rparr>"

definition short_result :: search_result where
  "short_result = \<lparr>content = ''abcd'', metadata = [''title'' \<mapsto> MStr ''T''], similarity_score = 1, rank = 1\<rparr>"

definition example_heap :: heap where
  "example_heap =
     \<lparr>list_objects = [[0, 1]],
      dict_objects = [\<lparr>turn_role = ''user'', turn_content = ''hi'', turn_timestamp = ''t0''\<rparr>,
                      \<lparr>turn_role = ''assistant'', turn_content = ''hello'', turn_timestamp = ''t1''\<rparr>]\<rparr>"

definition budget_example :: "search_result list" where
  "budget_example = [result_of_length 2000, result_of_length 3600, result_of_length 1600]"

definition long_history :: "turn list" where
  "long_history =
     map (\<lambda>k. \<lparr>turn_role = (if even k then ''user'' else ''assistant''),
                turn_content = ''turn '' @ show_nat k, turn_timestamp = ''2024-01-01''\<rparr>) [0..<12]"

definition long_chatbot :: chatbot where
  "long_chatbot = example_chatbot\<lparr>conversation_history := long_history\<rparr>"


section \<open>The chunker: progress, termination and the shape of chunks\<close>

lemmas chunk_eval = chunk_end_def py_range_down_def py_index_def from_end_def py_slice_def
  slice_bound_def strip_def is_space_def upto.simps Let_def

subsection \<open>What \<open>strip\<close> returns\<close>

lemma last_dropWhile_nonempty:
  assumes "dropWhile P xs \<noteq> []"
  shows "last (dropWhile P xs) = last xs"
proof -
  have "last xs = last (takeWhile P xs @ dropWhile P xs)" by simp
  also have "\<dots> = last (dropWhile P xs)" using assms by (simp only: last_append if_False)
  finally show ?thesis by simp
qed

lemma strip_ends:
  assumes "strip s \<noteq> []"
  shows "\<not> is_space (hd (strip s))" and "\<not> is_space (last (strip s))"
proof -
  let ?u = "dropWhile is_space s"
  let ?v = "dropWhile is_space (rev ?u)"
  from assms have v: "?v \<noteq> []" by (simp add: strip_def)
  have u: "?u \<noteq> []"
  proof
    assume "?u = []"
    then have "?v = []" by (simp only: rev.simps dropWhile.simps)
    with v show False by contradiction
  qed
  have "hd (strip s) = last ?v" using v by (simp add: strip_def hd_rev)
  also have "\<dots> = last (rev ?u)" using v by (rule last_dropWhile_nonempty)
  also have "\<dots> = hd ?u" using u by (simp add: last_rev)
  finally show "\<not> is_space (hd (strip s))" using u hd_dropWhile[of is_space s] by simp
  have "last (strip s) = hd ?v" using v by (simp add: strip_def last_rev)
  then show "\<not> is_space (last (strip s))" using v hd_dropWhile[of is_space "rev ?u"] by simp
qed

lemma trimmed_strip: "trimmed (strip s)"
proof (cases "strip s = []")
  case True
  then show ?thesis by (simp add: trimmed_def) (simp add: strip_def)
next
  case False
  note ends = strip_ends[OF False]
  have a: "dropWhile is_space (strip s) = strip s"
    using False ends(1) by (simp add: dropWhile_eq_self_iff)
  have b: "dropWhile is_space (rev (strip s)) = rev (strip s)"
    using False ends(2) by (simp add: dropWhile_eq_self_iff hd_rev)
  show ?thesis unfolding trimmed_def
    by (subst (1) strip_def) (simp only: a b rev_rev_ident)
qed

subsection \<open>The end of a chunk\<close>

lemma find_sentence_end_mem:
  "find_sentence_end doc is = Inr (Some e) \<Longrightarrow> e - 1 \<in> set is"
  by (induction "is") (auto split: sum.splits if_splits)

lemma find_sentence_end_ok:
  "\<forall>i\<in>set is. 0 \<le> i \<and> i < int (length doc) \<Longrightarrow> \<exists>r. find_sentence_end doc is = Inr r"
  by (induction "is") (auto simp: py_index_def from_end_def split: sum.splits)

text \<open>
  From a cursor that is not negative the search reads inside the text, so it does not
  raise, and the end it returns is either the hard boundary or at least two characters
  after the lower limit of the search.
\<close>

lemma chunk_end_ok:
  assumes "0 \<le> s"
  shows "\<exists>e. chunk_end doc c s = Inr e \<and> (e = s + c \<or> max (s + c - 100) s + 2 \<le> e)"
proof (cases "s + c < int (length doc)")
  case False
  then show ?thesis by (simp add: chunk_end_def)
next
  case True
  let ?is = "py_range_down (s + c) (max (s + c - 100) s)"
  have "\<forall>i\<in>set ?is. 0 \<le> i \<and> i < int (length doc)"
    using True assms by (auto simp: py_range_down_def)
  from find_sentence_end_ok[OF this] obtain r where r: "find_sentence_end doc ?is = Inr r" by blast
  show ?thesis
  proof (cases r)
    case None
    with r True show ?thesis by (simp add: chunk_end_def)
  next
    case (Some e)
    with r have "e - 1 \<in> set ?is" by (simp add: find_sentence_end_mem)
    then have "max (s + c - 100) s + 2 \<le> e" by (auto simp: py_range_down_def)
    with r Some True show ?thesis by (simp add: chunk_end_def)
  qed
qed

subsection \<open>When the loop returns\<close>

text \<open>
  With \<open>overlap < chunk_size\<close> and \<open>overlap \<le> max (chunk_size - 100) 0 + 1\<close> the cursor
  grows in every iteration, and the loop returns a list of chunks. The scraper, the only
  caller, uses \<open>chunk_size = 1000\<close> and \<open>overlap = 200\<close>.
\<close>

lemma chunk_loop_returns:
  assumes safe: "ov < c" "ov \<le> max (c - 100) 0 + 1"
  shows "0 \<le> s \<Longrightarrow> \<exists>r. chunk_loop doc c ov s ch = Some (Inr r)"
proof (induction "nat (int (length doc) - s)" arbitrary: s ch rule: less_induct)
  case less
  show ?case
  proof (cases "s < int (length doc)")
    case False
    then show ?thesis by (subst chunk_loop.simps) simp
  next
    case True
    from chunk_end_ok[OF less.prems, of doc c] obtain e where
      e: "chunk_end doc c s = Inr e" and pr: "e = s + c \<or> max (s + c - 100) s + 2 \<le> e" by blast
    from pr safe have adv: "s < e - ov" by auto
    show ?thesis
    proof (cases "int (length doc) \<le> e - ov")
      case True
      with e \<open>s < int (length doc)\<close> show ?thesis by (subst chunk_loop.simps) (simp add: Let_def)
    next
      case False
      have "nat (int (length doc) - (e - ov)) < nat (int (length doc) - s)" using adv False by simp
      moreover have "0 \<le> e - ov" using adv less.prems by simp
      ultimately obtain r where
        "chunk_loop doc c ov (e - ov)
           (if strip (py_slice doc s e) \<noteq> [] then ch @ [strip (py_slice doc s e)] else ch) = Some (Inr r)"
        using less.hyps by blast
      with e False \<open>s < int (length doc)\<close> show ?thesis by (subst chunk_loop.simps) (simp add: Let_def)
    qed
  qed
qed

lemma chunk_text_returns:
  assumes "overlap < chunk_size" "overlap \<le> max (chunk_size - 100) 0 + 1"
  shows "\<exists>chunks. chunk_text doc chunk_size overlap = Some (Inr chunks)"
  using chunk_loop_returns[OF assms, of 0 doc "[]"] by (simp add: chunk_text_def)

lemma chunk_text_default_returns: "\<exists>chunks. chunk_text doc 1000 200 = Some (Inr chunks)"
  by (rule chunk_text_returns) simp_all

subsection \<open>When the loop does not return\<close>

text \<open>
  If a set of cursors is closed under the step of the loop, and the loop neither raises
  nor leaves from a cursor of the set, then the loop started inside the set never returns.
\<close>

lemma chunk_loop_stuck:
  assumes inv: "\<And>s. I s \<Longrightarrow>
      s < int (length doc) \<and> (\<exists>e. chunk_end doc c s = Inr e \<and> e - ov < int (length doc) \<and> I (e - ov))"
    and start: "I s"
  shows "chunk_loop doc c ov s ch = None"
proof (cases "chunk_loop doc c ov s ch")
  case None
  then show ?thesis .
next
  case (Some y)
  have "\<not> (doc = doc \<and> c = c \<and> ov = ov \<and> I s)"
  proof (rule chunk_loop.raw_induct[where P = "\<lambda>t' c' ov' s' ch' y'. \<not> (t' = doc \<and> c' = c \<and> ov' = ov \<and> I s')", OF _ Some])
    fix f t' c' ov' s' ch' y'
    assume IH: "\<And>t' c' ov' s' ch' y'. f t' c' ov' s' ch' = Some y' \<Longrightarrow> \<not> (t' = doc \<and> c' = c \<and> ov' = ov \<and> I s')"
      and body: "(if s' < int (length t') then
        (case chunk_end t' c' s' of
           Inl e \<Rightarrow> Some (Inl e)
         | Inr end \<Rightarrow>
             (let chunk = strip (py_slice t' s' end);
                  chunks' = (if chunk \<noteq> [] then ch' @ [chunk] else ch');
                  start' = end - ov'
              in if start' \<ge> int (length t') then Some (Inr chunks')
                 else f t' c' ov' start' chunks'))
      else Some (Inr ch')) = Some y'"
    show "\<not> (t' = doc \<and> c' = c \<and> ov' = ov \<and> I s')"
    proof
      assume eq: "t' = doc \<and> c' = c \<and> ov' = ov \<and> I s'"
      with inv[of s'] obtain e where
        e: "s' < int (length doc)" "chunk_end doc c s' = Inr e" "e - ov < int (length doc)" "I (e - ov)"
        by blast
      with body eq have "\<exists>ch''. f doc c ov (e - ov) ch'' = Some y'"
        by (auto simp: Let_def)
      then show False using IH e(4) by blast
    qed
  qed
  with start show ?thesis by simp
qed

text \<open>
  Claim C2: for every text and every configuration, also with \<open>overlap \<ge> chunk_size\<close>,
  the cursor grows in every iteration and \<open>chunk_text\<close> terminates. The code does not do
  this: on the five-character text \<open>abcde\<close> with \<open>chunk_size = 2\<close> and \<open>overlap = 2\<close>
  the first iteration ends the chunk at 2 and sets the cursor back to \<open>2 - 2 = 0\<close>, where
  it started, and the call never returns.
\<close>

theorem chunk_text_degenerate_overlap_loops:
  "next_start ''abcde'' 2 2 0 = Inr 0 \<and> chunk_text ''abcde'' 2 2 = None"
proof -
  have e: "chunk_end ''abcde'' 2 0 = Inr 2" by (simp add: chunk_eval)
  have "chunk_loop ''abcde'' 2 2 0 [] = None"
    by (rule chunk_loop_stuck[where I = "\<lambda>s. s = 0"]) (simp_all add: e)
  with e show ?thesis by (simp add: chunk_text_def next_start_def)
qed

text \<open>
  The same happens with \<open>overlap < chunk_size\<close> when a sentence ends early in the search
  window: with \<open>chunk_size = 10\<close> and \<open>overlap = 5\<close> the chunk ends after the full stop at
  index 1, the cursor becomes \<open>2 - 5 = -3\<close> and stays there. A very large overlap sends
  the cursor so far below zero that \<open>text[i]\<close> raises.
\<close>

lemma chunk_text_early_sentence_loops: "chunk_text ''a.bcdefghijklmnop'' 10 5 = None"
proof -
  have e0: "chunk_end ''a.bcdefghijklmnop'' 10 0 = Inr 2" by (simp add: chunk_eval)
  have e1: "chunk_end ''a.bcdefghijklmnop'' 10 (- 3) = Inr 2" by (simp add: chunk_eval)
  have "chunk_loop ''a.bcdefghijklmnop'' 10 5 0 [] = None"
    by (rule chunk_loop_stuck[where I = "\<lambda>s. s = 0 \<or> s = - 3"]) (auto simp add: e0 e1)
  then show ?thesis by (simp add: chunk_text_def)
qed

lemma chunk_text_huge_overlap_raises: "chunk_text ''abcde'' 2 1000 = Some (Inl IndexError)"
  by code_simp

subsection \<open>The chunks that are returned\<close>

lemma chunk_loop_good:
  assumes "chunk_loop doc c ov s ch = Some y"
  shows "list_all (\<lambda>x. x \<noteq> [] \<and> trimmed x) ch \<longrightarrow>
           (\<forall>r. y = Inr r \<longrightarrow> list_all (\<lambda>x. x \<noteq> [] \<and> trimmed x) r)"
proof (rule chunk_loop.raw_induct[where P = "\<lambda>t c ov s ch y. list_all (\<lambda>x. x \<noteq> [] \<and> trimmed x) ch \<longrightarrow>
           (\<forall>r. y = Inr r \<longrightarrow> list_all (\<lambda>x. x \<noteq> [] \<and> trimmed x) r)", OF _ assms])
  fix f t c ov s ch y
  let ?good = "list_all (\<lambda>x. x \<noteq> [] \<and> trimmed x)"
  assume IH: "\<And>t c ov s ch y. f t c ov s ch = Some y \<Longrightarrow> ?good ch \<longrightarrow> (\<forall>r. y = Inr r \<longrightarrow> ?good r)"
    and body: "(if s < int (length t) then
        (case chunk_end t c s of
           Inl e \<Rightarrow> Some (Inl e)
         | Inr end \<Rightarrow>
             (let chunk = strip (py_slice t s end);
                  chunks' = (if chunk \<noteq> [] then ch @ [chunk] else ch);
                  start' = end - ov
              in if start' \<ge> int (length t) then Some (Inr chunks')
                 else f t c ov start' chunks'))
      else Some (Inr ch)) = Some y"
  show "?good ch \<longrightarrow> (\<forall>r. y = Inr r \<longrightarrow> ?good r)"
  proof (intro impI allI)
    fix r
    assume g: "?good ch" and y: "y = Inr r"
    have step: "\<And>e. ?good (if strip (py_slice t s e) \<noteq> [] then ch @ [strip (py_slice t s e)] else ch)"
      using g by (simp add: trimmed_strip)
    show "?good r"
    proof (cases "s < int (length t)")
      case False
      with body y g show ?thesis by simp
    next
      case True
      show ?thesis
      proof (cases "chunk_end t c s")
        case (Inl e)
        with body True y show ?thesis by simp
      next
        case (Inr e)
        show ?thesis
        proof (cases "e - ov \<ge> int (length t)")
          case True
          with body \<open>s < int (length t)\<close> Inr y step[of e] show ?thesis
            by (simp add: Let_def)
        next
          case False
          with body \<open>s < int (length t)\<close> Inr
          have "f t c ov (e - ov) (if strip (py_slice t s e) \<noteq> [] then ch @ [strip (py_slice t s e)] else ch) = Some y"
            by (simp add: Let_def)
          from IH[OF this] step[of e] y show ?thesis by blast
        qed
      qed
    qed
  qed
qed

text \<open>
  Claim C5, as amended: when \<open>len(text) \<le> chunk_size\<close>, \<open>chunk_text\<close> returns the text
  itself as the only chunk, as it is (not trimmed, and also when it is empty or blank).
  When the text is longer, every chunk of the returned list is non-empty and trimmed,
  and with a configuration as in \<open>chunk_loop_returns\<close> a list is returned.
\<close>

theorem chunk_text_chunks:
  "(int (length doc) \<le> chunk_size \<longrightarrow> chunk_text doc chunk_size overlap = Some (Inr [doc]))
   \<and> (chunk_size < int (length doc) \<longrightarrow> chunk_text doc chunk_size overlap = Some (Inr chunks) \<longrightarrow>
        list_all (\<lambda>c. c \<noteq> [] \<and> trimmed c) chunks)
   \<and> (overlap < chunk_size \<and> overlap \<le> max (chunk_size - 100) 0 + 1 \<longrightarrow>
        (\<exists>cs. chunk_text doc chunk_size overlap = Some (Inr cs)))"
proof (intro conjI impI)
  assume "int (length doc) \<le> chunk_size"
  then show "chunk_text doc chunk_size overlap = Some (Inr [doc])" by (simp add: chunk_text_def)
next
  assume "chunk_size < int (length doc)" and "chunk_text doc chunk_size overlap = Some (Inr chunks)"
  then have "chunk_loop doc chunk_size overlap 0 [] = Some (Inr chunks)" by (simp add: chunk_text_def)
  from chunk_loop_good[OF this] show "list_all (\<lambda>c. c \<noteq> [] \<and> trimmed c) chunks" by simp
next
  assume "overlap < chunk_size \<and> overlap \<le> max (chunk_size - 100) 0 + 1"
  then show "\<exists>cs. chunk_text doc chunk_size overlap = Some (Inr cs)"
    using chunk_text_returns[of overlap chunk_size doc] by blast
qed

theorem chunk_text_chunks_witness:
  "int (length ''  a '') \<le> 10 \<and> chunk_text ''  a '' 10 2 = Some (Inr [''  a ''])
   \<and> 4 < int (length ''Hi. Yo yo'') \<and> (1::int) < 4 \<and> (1::int) \<le> max (4 - 100) 0 + 1
   \<and> chunk_text ''Hi. Yo yo'' 4 1 = Some (Inr [''Hi.'', ''. Yo'', ''o yo'', ''o''])
   \<and> list_all (\<lambda>c. c \<noteq> [] \<and> trimmed c) [''Hi.'', ''. Yo'', ''o yo'', ''o'']"
proof -
  have a: "int (length ''  a '') \<le> 10" by simp
  have b: "4 < int (length ''Hi. Yo yo'')" by simp
  have c: "chunk_text ''Hi. Yo yo'' 4 1 = Some (Inr [''Hi.'', ''. Yo'', ''o yo'', ''o''])"
    by code_simp
  from chunk_text_chunks[of "''  a ''" 10 2] a
  have d: "chunk_text ''  a '' 10 2 = Some (Inr [''  a ''])" by blast
  from chunk_text_chunks[of "''Hi. Yo yo''" 4 1 "[''Hi.'', ''. Yo'', ''o yo'', ''o'']"] b c
  have e: "list_all (\<lambda>c. c \<noteq> [] \<and> trimmed c) [''Hi.'', ''. Yo'', ''o yo'', ''o'']" by blast
  from a b c d e show ?thesis by simp
qed

theorem chunk_text_chunks_counterexample:
  "chunk_text ''  a '' 10 2 = Some (Inr [''  a '']) \<and> strip ''  a '' = ''a''
   \<and> chunk_text [] 10 2 = Some (Inr [[]])"
  by (simp add: chunk_text_def strip_def is_space_def)


section \<open>The vector store\<close>

subsection \<open>Ingestion\<close>

text \<open>
  Claim C4: when the index is not empty, \<open>load_and_index_data\<close> indexes nothing: it
  reports success and returns the store as it was, so \<open>count\<close> is unchanged. This
  holds whatever the collaborators do, since none of them is called.
\<close>

theorem load_and_index_data_idempotent:
  assumes "0 < count vs"
  shows "load_and_index_data sv data_file vs = (True, vs)
         \<and> count (snd (load_and_index_data sv data_file vs)) = count vs"
  using assms by (simp add: load_and_index_data_def)

theorem load_and_index_data_idempotent_witness:
  "0 < count example_store
   \<and> load_and_index_data failing_services ''data/pmc_scraped_data.json'' example_store = (True, example_store)"
proof -
  have a: "0 < count example_store" by (simp add: count_def example_store_def)
  from load_and_index_data_idempotent[OF a] a show ?thesis by simp
qed

subsection \<open>Search\<close>

lemma format_results_nth:
  assumes "documents res = docs # ds'" "metadatas res = ms # ms'" "distances res = ds # dss'"
  shows "\<exists>rs. format_results res = Inr rs
          \<and> length rs = min (length docs) (min (length ms) (length ds))
          \<and> (\<forall>i<length rs. rank (rs ! i) = i + 1 \<and> similarity_score (rs ! i) = 1 - ds ! i
                \<and> content (rs ! i) = docs ! i \<and> metadata (rs ! i) = ms ! i)"
proof (cases "docs = []")
  case True
  with assms show ?thesis by (simp add: format_results_def)
next
  case False
  let ?rs = "map (\<lambda>(i, doc, m, distance).
                \<lparr>content = doc, metadata = m, similarity_score = 1 - distance, rank = i + 1\<rparr>)
              (enumerate 0 (zip docs (zip ms ds)))"
  from False assms have "format_results res = Inr ?rs" by (simp add: format_results_def)
  moreover have "length ?rs = min (length docs) (min (length ms) (length ds))" by simp
  moreover have "\<forall>i<length ?rs. rank (?rs ! i) = i + 1 \<and> similarity_score (?rs ! i) = 1 - ds ! i
                \<and> content (?rs ! i) = docs ! i \<and> metadata (?rs ! i) = ms ! i"
    by (simp add: nth_enumerate_eq)
  ultimately show ?thesis by blast
qed

text \<open>
  Claim C8: when the embedding and the index query succeed and the query answers with
  \<open>n\<close> results (the shortest of the three inner lists has \<open>n\<close> elements), \<open>search\<close>
  returns \<open>n\<close> results whose ranks are \<open>1, ..., n\<close> in order, and the similarity
  score of each is one minus its distance.
\<close>

theorem search_ranks_and_scores:
  assumes "encode sv [query] = Inr emb"
    and "collection_query sv (collection vs) emb n_results = Inr res"
    and "documents res = docs # ds'" "metadatas res = ms # ms'" "distances res = ds # dss'"
    and "n = min (length docs) (min (length ms) (length ds))"
  shows "length (snd (search sv vs query n_results)) = n
         \<and> map rank (snd (search sv vs query n_results)) = [1..<Suc n]
         \<and> (\<forall>i<n. rank (snd (search sv vs query n_results) ! i) = i + 1
                 \<and> similarity_score (snd (search sv vs query n_results) ! i) = 1 - ds ! i
                 \<and> content (snd (search sv vs query n_results) ! i) = docs ! i)"
proof -
  from format_results_nth[OF assms(3-5)] obtain rs where
    rs: "format_results res = Inr rs" "length rs = n"
        "\<forall>i<length rs. rank (rs ! i) = i + 1 \<and> similarity_score (rs ! i) = 1 - ds ! i
                \<and> content (rs ! i) = docs ! i \<and> metadata (rs ! i) = ms ! i"
    using assms(6) by auto
  from assms(1,2) rs(1) have s: "snd (search sv vs query n_results) = rs" by (simp add: search_def)
  have "map rank rs = [1..<Suc n]"
  proof (rule nth_equalityI)
    show "length (map rank rs) = length [1..<Suc n]" using rs(2) by simp
  next
    fix i assume "i < length (map rank rs)"
    then show "map rank rs ! i = [1..<Suc n] ! i" using rs(2,3) by (simp del: upt_Suc)
  qed
  with s rs show ?thesis by simp
qed

theorem search_ranks_and_scores_witness:
  "map rank (snd (search (working_services example_query_result []) example_store ''budget'' 5)) = [1, 2, 3]
   \<and> map similarity_score (snd (search (working_services example_query_result []) example_store ''budget'' 5))
       = [3 / 4, 1 / 2, 0]"
proof -
  let ?sv = "working_services example_query_result []"
  have a: "encode ?sv [''budget''] = Inr [[0, 1]]" by (simp add: working_services_def)
  have b: "collection_query ?sv (collection example_store) [[0, 1]] 5 = Inr example_query_result"
    by (simp add: working_services_def)
  have c: "documents example_query_result = [''alpha'', ''beta'', ''gamma''] # []"
    "metadatas example_query_result = [[''title'' \<mapsto> MStr ''A''], [''title'' \<mapsto> MStr ''B''], Map.empty] # []"
    "distances example_query_result = [1 / 4, 1 / 2, 1] # []"
    by (simp_all add: example_query_result_def)
  have d: "(3::nat) = min (length [''alpha'', ''beta'', ''gamma''])
             (min (length [[''title'' \<mapsto> MStr ''A''], [''title'' \<mapsto> MStr ''B''], Map.empty :: metadata])
                  (length [1 / 4, 1 / 2, 1 :: real]))"
    by simp
  note t = search_ranks_and_scores[OF a b c d]
  from t have len: "length (snd (search ?sv example_store ''budget'' 5)) = 3" by blast
  from t have rk: "map rank (snd (search ?sv example_store ''budget'' 5)) = [1..<Suc 3]" by blast
  from t have sc: "\<forall>i<3. similarity_score (snd (search ?sv example_store ''budget'' 5) ! i)
                      = 1 - [1 / 4, 1 / 2, 1 :: real] ! i" by blast
  have r: "[1..<Suc 3] = [1, 2, 3]" by (simp add: upt_rec)
  have "map similarity_score (snd (search ?sv example_store ''budget'' 5)) = [3 / 4, 1 / 2, 0]"
  proof (rule nth_equalityI)
    show "length (map similarity_score (snd (search ?sv example_store ''budget'' 5))) = length [3 / 4, 1 / 2, 0 :: real]"
      using len by simp
  next
    fix i assume "i < length (map similarity_score (snd (search ?sv example_store ''budget'' 5)))"
    then have i: "i < 3" using len by simp
    then have "i = 0 \<or> i = 1 \<or> i = 2" by auto
    then show "map similarity_score (snd (search ?sv example_store ''budget'' 5)) ! i = [3 / 4, 1 / 2, 0 :: real] ! i"
      using sc len i by auto
  qed
  with rk r show ?thesis by simp
qed

text \<open>
  Claim C6, as amended: when the embedding or the index query raises, \<open>search\<close> logs
  one error line and returns the empty list, and so does \<open>search_documents\<close>. No
  result is made up; the failure reaches the log only, and the value returned is the one
  that a query without any match returns.
\<close>

theorem search_failure_empty:
  assumes "encode sv [query] = Inl e
           \<or> (\<exists>emb. encode sv [query] = Inr emb
                 \<and> collection_query sv (collection (vector_store self)) emb n_results = Inl e)"
  shows "search sv (vector_store self) query n_results
           = ([LogError (''Error searching vector store: '' @ error_text e)], [])
         \<and> search_documents sv self query n_results = []"
  using assms by (auto simp: search_def search_error_def search_documents_def)

theorem search_failure_empty_witness:
  "encode failing_services [''budget''] = Inl (ServiceError ''unreachable'')
   \<and> search failing_services (vector_store example_chatbot) ''budget'' 5
       = ([LogError ''Error searching vector store: unreachable''], [])
   \<and> search_documents failing_services example_chatbot ''budget'' 5 = []"
proof -
  have a: "encode failing_services [''budget''] = Inl (ServiceError ''unreachable'')"
    by (simp add: failing_services_def)
  from search_failure_empty[of failing_services "''budget''" "ServiceError ''unreachable''" example_chatbot 5] a
  show ?thesis by simp
qed

theorem search_failure_counterexample:
  "encode failing_services [''budget''] = Inl (ServiceError ''unreachable'')
   \<and> encode (working_services empty_query_result []) [''budget''] = Inr [[0, 1]]
   \<and> collection_query (working_services empty_query_result [])
        (collection (vector_store example_chatbot)) [[0, 1]] 5 = Inr empty_query_result
   \<and> search_documents failing_services example_chatbot ''budget'' 5
       = search_documents (working_services empty_query_result []) example_chatbot ''budget'' 5"
  by (simp add: search_documents_def search_def search_error_def failing_services_def
        working_services_def empty_query_result_def format_results_def)

subsection \<open>Context assembly\<close>

lemma accumulate_included:
  "accumulate results budget parts cur =
     (parts @ map context_part (included results budget cur),
      cur + (\<Sum>r\<leftarrow>included results budget cur. estimated_tokens r))"
  by (induction results arbitrary: parts cur) simp_all

lemma included_prefix:
  "\<exists>k\<le>length results. included results budget cur = take k results
      \<and> (k < length results \<longrightarrow> budget < cur + (\<Sum>r\<leftarrow>take (Suc k) results. estimated_tokens r))
      \<and> (0 < k \<or> cur \<le> budget \<longrightarrow> cur + (\<Sum>r\<leftarrow>take k results. estimated_tokens r) \<le> budget)"
proof (induction results arbitrary: cur)
  case Nil
  then show ?case by simp
next
  case (Cons r rs)
  show ?case
  proof (cases "cur + estimated_tokens r > budget")
    case True
    then have "included (r # rs) budget cur = take 0 (r # rs)
      \<and> (0 < length (r # rs) \<longrightarrow> budget < cur + (\<Sum>r\<leftarrow>take (Suc 0) (r # rs). estimated_tokens r))
      \<and> (0 < (0::nat) \<or> cur \<le> budget \<longrightarrow> cur + (\<Sum>r\<leftarrow>take 0 (r # rs). estimated_tokens r) \<le> budget)"
      by simp
    then show ?thesis by blast
  next
    case False
    from Cons.IH[of "cur + estimated_tokens r"] obtain k where
      k: "k \<le> length rs" "included rs budget (cur + estimated_tokens r) = take k rs"
         "k < length rs \<longrightarrow> budget < cur + estimated_tokens r + (\<Sum>r\<leftarrow>take (Suc k) rs. estimated_tokens r)"
         "0 < k \<or> cur + estimated_tokens r \<le> budget \<longrightarrow>
            cur + estimated_tokens r + (\<Sum>r\<leftarrow>take k rs. estimated_tokens r) \<le> budget"
      by blast
    from False k have "Suc k \<le> length (r # rs) \<and> included (r # rs) budget cur = take (Suc k) (r # rs)
      \<and> (Suc k < length (r # rs) \<longrightarrow> budget < cur + (\<Sum>r\<leftarrow>take (Suc (Suc k)) (r # rs). estimated_tokens r))
      \<and> (0 < Suc k \<or> cur \<le> budget \<longrightarrow> cur + (\<Sum>r\<leftarrow>take (Suc k) (r # rs). estimated_tokens r) \<le> budget)"
      by (simp add: add.assoc)
    then show ?thesis by blast
  qed
qed

text \<open>
  Claim C3, as amended: \<open>assemble\<close> returns the labelled blocks of a prefix of the
  results, joined by blank lines, each block whole. The prefix ends before the first
  result whose estimate \<open>len(content) // 4\<close>, added to the estimates of the results
  before it, exceeds the budget; that result and all later ones are left out. The sum
  of the estimates of the included results is at most the budget when the budget is not
  negative (or when anything is included). The estimate counts the content only, not the
  label \<open>Source: title\<close> nor the separators.
\<close>

theorem assemble_budget:
  "assemble results budget = join [newline, newline] (map context_part (included results budget 0))
   \<and> (\<exists>k\<le>length results. included results budget 0 = take k results
        \<and> (k < length results \<longrightarrow> budget < (\<Sum>r\<leftarrow>take (Suc k) results. estimated_tokens r))
        \<and> (0 < k \<or> 0 \<le> budget \<longrightarrow> (\<Sum>r\<leftarrow>take k results. estimated_tokens r) \<le> budget))
   \<and> (0 \<le> budget \<longrightarrow> (\<Sum>r\<leftarrow>included results budget 0. estimated_tokens r) \<le> budget)"
proof -
  have a: "assemble results budget = join [newline, newline] (map context_part (included results budget 0))"
    by (cases results) (simp_all add: assemble_def accumulate_included)
  from included_prefix[of results budget 0] obtain k where
    k: "k \<le> length results" "included results budget 0 = take k results"
       "k < length results \<longrightarrow> budget < (\<Sum>r\<leftarrow>take (Suc k) results. estimated_tokens r)"
       "0 < k \<or> 0 \<le> budget \<longrightarrow> (\<Sum>r\<leftarrow>take k results. estimated_tokens r) \<le> budget"
    by auto
  from k(2,4) have c: "0 \<le> budget \<longrightarrow> (\<Sum>r\<leftarrow>included results budget 0. estimated_tokens r) \<le> budget"
    by simp
  from a k c show ?thesis by blast
qed

theorem assemble_budget_witness:
  "(0::int) \<le> 1200
   \<and> included budget_example 1200 0 = [result_of_length 2000]
   \<and> (\<Sum>r\<leftarrow>included budget_example 1200 0. estimated_tokens r) \<le> 1200
   \<and> assemble budget_example 1200 = ''Source: Unknown'' @ [newline] @ replicate 2000 CHR ''a''"
proof -
  have inc: "included budget_example 1200 0 = [result_of_length 2000]"
    by (simp add: budget_example_def result_of_length_def estimated_tokens_def)
  from assemble_budget[of budget_example 1200] inc show ?thesis
    by (simp add: context_part_def result_of_length_def)
qed

theorem assemble_budget_counterexample:
  "assemble [short_result] 1 = ''Source: T'' @ [newline] @ ''abcd''
   \<and> 1 < rendered_cost (fst (accumulate [short_result] 1 [] 0))
   \<and> 1 < int (length (assemble [short_result] 1)) div 4
   \<and> assemble [short_result] (- 1) = []
   \<and> - 1 < snd (accumulate [short_result] (- 1) [] 0)"
  by (simp add: assemble_def short_result_def estimated_tokens_def context_part_def rendered_cost_def)


section \<open>The conversation\<close>

text \<open>The three steps of \<open>get_response\<close> in one expression over the chatbot it is called on.\<close>

lemma get_response_unfold:
  "get_response sv user_message use_context self =
     (let self1 = self\<lparr>conversation_history := conversation_history self @ [user_turn sv user_message]\<rparr>;
          context = request_context sv self user_message use_context;
          messages = build_messages (system_prompt self) context (conversation_history self1)
      in case completions_create sv (model_name self) messages (temperature self) (max_tokens self) of
           Inl e \<Rightarrow> (ErrorResponse apology (error_text e) (now sv 1), self1)
         | Inr [] \<Rightarrow> (ErrorResponse apology (error_text IndexError) (now sv 1), self1)
         | Inr (assistant_message # _) \<Rightarrow>
             (ResponseData assistant_message (context \<noteq> []) (length context) (now sv 2) (model_name self),
              self1\<lparr>conversation_history := conversation_history self1 @
                 [\<lparr>turn_role = ''assistant'',
                   turn_content = (case assistant_message of None \<Rightarrow> [] | Some m \<Rightarrow> m),
                   turn_timestamp = now sv 1\<rparr>]\<rparr>))"
  by (simp add: get_response_def build_prompt_def record_user_turn_def request_context_def Let_def
        split: sum.split list.split)

text \<open>
  Claim C1, as amended: when the completion call raises, no assistant turn is recorded,
  and the user turn that \<open>get_response\<close> appended before the call stays: the history
  after the call is the history before it followed by the user turn. The call returns
  the error response with the apology.
\<close>

theorem get_response_failure_history:
  assumes "completions_create sv (model_name self) (request_messages sv self user_message use_context)
             (temperature self) (max_tokens self) = Inl e"
  shows "get_response sv user_message use_context self =
           (ErrorResponse apology (error_text e) (now sv 1),
            self\<lparr>conversation_history := conversation_history self @ [user_turn sv user_message]\<rparr>)"
  using assms by (simp add: get_response_unfold request_messages_def Let_def)

theorem get_response_failure_history_witness:
  "completions_create failing_services (model_name example_chatbot)
     (request_messages failing_services example_chatbot ''hello'' True)
     (temperature example_chatbot) (max_tokens example_chatbot) = Inl (ServiceError ''unreachable'')
   \<and> conversation_history (snd (get_response failing_services ''hello'' True example_chatbot))
       = [\<lparr>turn_role = ''user'', turn_content = ''hello'', turn_timestamp = now failing_services 0\<rparr>]"
proof -
  have a: "completions_create failing_services (model_name example_chatbot)
     (request_messages failing_services example_chatbot ''hello'' True)
     (temperature example_chatbot) (max_tokens example_chatbot) = Inl (ServiceError ''unreachable'')"
    by (simp add: failing_services_def)
  from get_response_failure_history[OF a] a show ?thesis
    by (simp add: example_chatbot_def user_turn_def)
qed

theorem get_response_failure_history_counterexample:
  "completions_create failing_services (model_name example_chatbot)
     (request_messages failing_services example_chatbot ''hello'' True)
     (temperature example_chatbot) (max_tokens example_chatbot) = Inl (ServiceError ''unreachable'')
   \<and> conversation_history (snd (get_response failing_services ''hello'' True example_chatbot))
       \<noteq> conversation_history example_chatbot"
  by (simp add: get_response_unfold Let_def failing_services_def example_chatbot_def)

text \<open>
  Claim C9: when the completion service answers with a null or an empty completion,
  \<open>get_response\<close> does not fail: it returns response data and records the user turn
  followed by an assistant turn whose content is the empty string.
\<close>

theorem null_completion_recorded:
  assumes "completions_create sv (model_name self) (request_messages sv self user_message use_context)
             (temperature self) (max_tokens self) = Inr (c # cs)"
    and "c = None \<or> c = Some []"
  shows "get_response sv user_message use_context self =
           (ResponseData c (request_context sv self user_message use_context \<noteq> [])
              (length (request_context sv self user_message use_context)) (now sv 2) (model_name self),
            self\<lparr>conversation_history := conversation_history self @
               [user_turn sv user_message,
                \<lparr>turn_role = ''assistant'', turn_content = [], turn_timestamp = now sv 1\<rparr>]\<rparr>)"
  using assms by (auto simp add: get_response_unfold request_messages_def Let_def)

theorem null_completion_recorded_witness:
  "conversation_history (snd (get_response (working_services empty_query_result [None]) ''hello'' True example_chatbot))
     = [\<lparr>turn_role = ''user'', turn_content = ''hello'', turn_timestamp = now (working_services empty_query_result [None]) 0\<rparr>,
        \<lparr>turn_role = ''assistant'', turn_content = [], turn_timestamp = now (working_services empty_query_result [None]) 1\<rparr>]"
proof -
  let ?sv = "working_services empty_query_result [None]"
  have a: "completions_create ?sv (model_name example_chatbot)
     (request_messages ?sv example_chatbot ''hello'' True)
     (temperature example_chatbot) (max_tokens example_chatbot) = Inr (None # [])"
    by (simp add: working_services_def)
  have b: "(None :: string option) = None \<or> None = Some []" by simp
  from null_completion_recorded[OF a b] show ?thesis
    by (simp add: example_chatbot_def user_turn_def)
qed

lemma recent_history_drop: "recent_history history = drop (length history - 10) history"
  by (simp add: recent_history_def py_slice_from_def slice_bound_def from_end_def nat_diff_distrib' max_def min_def)

lemma forward_filter:
  "concat (map forward ts)
     = map (\<lambda>t. \<lparr>msg_role = turn_role t, msg_content = turn_content t\<rparr>)
           (filter (\<lambda>t. turn_role t = ''user'' \<or> turn_role t = ''assistant'') ts)"
  by (induction ts) (simp_all add: forward_def)

lemma build_messages_window:
  "build_messages sp ctx ts
     = \<lparr>msg_role = ''system'', msg_content = sp\<rparr>
       # (if ctx = [] then [] else [\<lparr>msg_role = ''system'', msg_content = context_message ctx\<rparr>])
       @ map (\<lambda>t. \<lparr>msg_role = turn_role t, msg_content = turn_content t\<rparr>)
             (filter (\<lambda>t. turn_role t = ''user'' \<or> turn_role t = ''assistant'')
                     (drop (length ts - 10) ts))"
  by (simp add: build_messages_def recent_history_drop forward_filter)

lemma length_filter_last10:
  "length (map f (filter P (drop (length ts - 10) (ts :: 'a list)))) \<le> 10"
proof -
  have "length (filter P (drop (length ts - 10) ts)) \<le> length (drop (length ts - 10) ts)"
    by (rule length_filter_le)
  then show ?thesis by simp
qed

text \<open>
  Claim C7: for a chatbot with a history of any length, the step that builds the prompt
  returns the chatbot as it was, so the length of the stored history is the same before
  and after it, and the messages it builds are the system messages followed by the
  user and assistant turns among the last ten turns of the history, in order: at most
  ten. \<open>get_response\<close> sends exactly these messages, built from the history with the new
  user turn, to the completion service: the stored history after the call is the whole
  history before it, the user turn and the assistant turn that the service's answer to
  these messages gives (none when the call fails), and \<open>conversation_length\<close> reports
  the length of that whole history.
\<close>

theorem window_is_view_only:
  "let fwd = (\<lambda>ts. map (\<lambda>t. \<lparr>msg_role = turn_role t, msg_content = turn_content t\<rparr>)
                        (filter (\<lambda>t. turn_role t = ''user'' \<or> turn_role t = ''assistant'') ts));
       last10 = (\<lambda>ts :: turn list. drop (length ts - 10) ts);
       prompt = (\<lambda>sp ctx ts.
                   \<lparr>msg_role = ''system'', msg_content = sp\<rparr>
                   # (if ctx = [] then [] else [\<lparr>msg_role = ''system'', msg_content = context_message ctx\<rparr>])
                   @ fwd (last10 ts));
       h = conversation_history self;
       u = user_turn sv user_message;
       ctx = request_context sv self user_message use_context;
       sent = prompt (system_prompt self) ctx (h @ [u]);
       recorded = (case completions_create sv (model_name self) sent (temperature self) (max_tokens self) of
                     Inl e \<Rightarrow> []
                   | Inr [] \<Rightarrow> []
                   | Inr (c # cs) \<Rightarrow>
                       [\<lparr>turn_role = ''assistant'',
                         turn_content = (case c of None \<Rightarrow> [] | Some m \<Rightarrow> m),
                         turn_timestamp = now sv 1\<rparr>]);
       after = snd (get_response sv user_message use_context self)
   in build_prompt sv user_message use_context s
        = ((request_context sv s user_message use_context,
            prompt (system_prompt s) (request_context sv s user_message use_context) (conversation_history s)),
           s)
      \<and> length (conversation_history (snd (build_prompt sv user_message use_context s)))
          = length (conversation_history s)
      \<and> length (last10 (conversation_history s)) = min 10 (length (conversation_history s))
      \<and> length (fwd (last10 (conversation_history s))) \<le> 10
      \<and> build_prompt sv user_message use_context (record_user_turn sv user_message self)
          = ((ctx, sent), self\<lparr>conversation_history := h @ [u]\<rparr>)
      \<and> conversation_history after = h @ [u] @ recorded
      \<and> length (conversation_history after) = Suc (length h) + length recorded
      \<and> conversation_length (get_system_info after) = Suc (length h) + length recorded"
proof -
  let ?h = "conversation_history self"
  let ?u = "user_turn sv user_message"
  let ?ctx = "request_context sv self user_message use_context"
  let ?sent = "build_messages (system_prompt self) ?ctx (?h @ [?u])"
  let ?recorded = "(case completions_create sv (model_name self) ?sent (temperature self) (max_tokens self) of
                     Inl e \<Rightarrow> []
                   | Inr [] \<Rightarrow> []
                   | Inr (c # cs) \<Rightarrow>
                       [\<lparr>turn_role = ''assistant'',
                         turn_content = (case c of None \<Rightarrow> [] | Some m \<Rightarrow> m),
                         turn_timestamp = now sv 1\<rparr>])"
  let ?after = "snd (get_response sv user_message use_context self)"
  have step: "build_prompt sv user_message use_context s
        = ((request_context sv s user_message use_context,
            build_messages (system_prompt s) (request_context sv s user_message use_context) (conversation_history s)),
           s)"
    by (simp add: build_prompt_def Let_def)
  have frame: "length (conversation_history (snd (build_prompt sv user_message use_context s)))
          = length (conversation_history s)"
    by (simp add: step)
  have first: "build_prompt sv user_message use_context (record_user_turn sv user_message self)
          = ((?ctx, ?sent), self\<lparr>conversation_history := ?h @ [?u]\<rparr>)"
    by (simp add: build_prompt_def record_user_turn_def request_context_def Let_def)
  have hist: "conversation_history ?after = ?h @ [?u] @ ?recorded"
    by (simp add: get_response_unfold Let_def split: sum.split list.split)
  have len: "length (conversation_history ?after) = Suc (length ?h) + length ?recorded"
    by (simp add: hist)
  have info: "conversation_length (get_system_info ?after) = Suc (length ?h) + length ?recorded"
    by (simp add: get_system_info_def len)
  have win: "length (drop (length (conversation_history s) - 10) (conversation_history s))
               = min 10 (length (conversation_history s))"
    by simp
  show ?thesis
    unfolding Let_def build_messages_window[symmetric]
    using step frame first hist len info win
      length_filter_last10[of "\<lambda>t. \<lparr>msg_role = turn_role t, msg_content = turn_content t\<rparr>"
        "\<lambda>t. turn_role t = ''user'' \<or> turn_role t = ''assistant''" "conversation_history s"]
    by (intro conjI) assumption+
qed

theorem window_is_view_only_witness:
  "length (conversation_history long_chatbot) = 12
   \<and> length (conversation_history
        (snd (build_prompt (working_services empty_query_result [Some ''ok'']) ''hello'' False long_chatbot))) = 12
   \<and> map msg_content (snd (fst (build_prompt (working_services empty_query_result [Some ''ok'']) ''hello'' False
          (record_user_turn (working_services empty_query_result [Some ''ok'']) ''hello'' long_chatbot))))
       = ''You are an AI assistant.'' # map (\<lambda>k. ''turn '' @ show_nat k) [3..<12] @ [''hello'']
   \<and> length (conversation_history
        (snd (get_response (working_services empty_query_result [Some ''ok'']) ''hello'' False long_chatbot))) = 14
   \<and> conversation_length (get_system_info
        (snd (get_response (working_services empty_query_result [Some ''ok'']) ''hello'' False long_chatbot))) = 14"
proof -
  let ?sv = "working_services empty_query_result [Some ''ok'']"
  note t = window_is_view_only[of long_chatbot ?sv "''hello''" False long_chatbot, unfolded Let_def]
  have len: "length (conversation_history long_chatbot) = 12"
    by (simp add: long_chatbot_def long_history_def)
  have ans: "\<And>msgs. completions_create ?sv (model_name long_chatbot) msgs (temperature long_chatbot)
                 (max_tokens long_chatbot) = Inr [Some ''ok'']"
    by (simp add: working_services_def)
  note frame = t[THEN conjunct2, THEN conjunct1]
  note after = t[THEN conjunct2, THEN conjunct2, THEN conjunct2, THEN conjunct2, THEN conjunct2,
                 THEN conjunct2, THEN conjunct1]
  note info = t[THEN conjunct2, THEN conjunct2, THEN conjunct2, THEN conjunct2, THEN conjunct2,
                THEN conjunct2, THEN conjunct2]
  have a: "length (conversation_history (snd (build_prompt ?sv ''hello'' False long_chatbot))) = 12"
    by (simp only: frame len)
  have b: "map msg_content (snd (fst (build_prompt ?sv ''hello'' False
          (record_user_turn ?sv ''hello'' long_chatbot))))
       = ''You are an AI assistant.'' # map (\<lambda>k. ''turn '' @ show_nat k) [3..<12] @ [''hello'']"
    by code_simp
  have c: "length (conversation_history (snd (get_response ?sv ''hello'' False long_chatbot))) = 14"
    by (subst after) (simp add: ans len)
  have d: "conversation_length (get_system_info (snd (get_response ?sv ''hello'' False long_chatbot))) = 14"
    by (subst info) (simp add: ans len)
  from len a b c d show ?thesis by simp
qed

section \<open>The copy returned by \<open>get_conversation_history\<close>\<close>

lemma mutate_list_other:
  "l \<noteq> k \<Longrightarrow> list_objects (mutate_list l opn h) ! k = list_objects h ! k
            \<and> length (list_objects (mutate_list l opn h)) = length (list_objects h)
            \<and> dict_objects (mutate_list l opn h) = dict_objects h"
  by (simp add: mutate_list_def split: sum.splits)

lemma mutate_all_other:
  "l \<noteq> k \<Longrightarrow> list_objects (mutate_all l ops h) ! k = list_objects h ! k
            \<and> dict_objects (mutate_all l ops h) = dict_objects h"
  by (induction ops arbitrary: h) (simp_all add: mutate_list_other)

text \<open>
  Claim C10: \<open>get_conversation_history\<close> returns a new list object that shows the same
  turns as the stored history. Whatever sequence of appends, insertions, removals and
  rearrangements is applied to the returned list, the list object of the chatbot and the
  turns it shows stay as they were.
\<close>

theorem get_conversation_history_is_copy:
  assumes "history < length (list_objects h)"
    and "get_conversation_history history h = (returned, h')"
  shows "returned \<noteq> history
         \<and> turns_of h' returned = turns_of h history
         \<and> turns_of h' history = turns_of h history
         \<and> list_objects (mutate_all returned ops h') ! history = list_objects h ! history
         \<and> turns_of (mutate_all returned ops h') history = turns_of h history"
proof -
  from assms(2) have r: "returned = length (list_objects h)"
    and h': "h' = h\<lparr>list_objects := list_objects h @ [list_objects h ! history]\<rparr>"
    by (simp_all add: get_conversation_history_def list_copy_def)
  from r assms(1) have ne: "returned \<noteq> history" by simp
  have a: "list_objects h' ! returned = list_objects h ! history" by (simp add: h' r)
  have b: "list_objects h' ! history = list_objects h ! history"
    using assms(1) by (simp add: h' nth_append)
  have c: "dict_objects h' = dict_objects h" by (simp add: h')
  from mutate_all_other[OF ne, of ops h'] a b c ne show ?thesis
    by (simp add: turns_of_def)
qed

theorem get_conversation_history_is_copy_witness:
  "0 < length (list_objects example_heap)
   \<and> get_conversation_history 0 example_heap = (1, example_heap\<lparr>list_objects := [[0, 1], [0, 1]]\<rparr>)
   \<and> list_objects (mutate_all 1 [Append 0, Pop 0, Reverse, Clear] (example_heap\<lparr>list_objects := [[0, 1], [0, 1]]\<rparr>)) ! 0
       = [0, 1]
   \<and> list_objects (mutate_all 1 [Append 0, Pop 0, Reverse] (example_heap\<lparr>list_objects := [[0, 1], [0, 1]]\<rparr>)) ! 1
       = [0, 1]"
proof -
  have a: "0 < length (list_objects example_heap)" by (simp add: example_heap_def)
  have b: "get_conversation_history 0 example_heap = (1, example_heap\<lparr>list_objects := [[0, 1], [0, 1]]\<rparr>)"
    by (simp add: get_conversation_history_def list_copy_def example_heap_def)
  have c: "list_objects example_heap ! 0 = [0, 1]" by (simp add: example_heap_def)
  have d: "list_objects (mutate_all 1 [Append 0, Pop 0, Reverse] (example_heap\<lparr>list_objects := [[0, 1], [0, 1]]\<rparr>)) ! 1
       = [0, 1]"
    by (simp add: mutate_list_def example_heap_def py_index_def from_end_def)
  from get_conversation_history_is_copy[OF a b, of "[Append 0, Pop 0, Reverse, Clear]"] a b c d
  show ?thesis by simp
qed

text \<open>
  The copy is shallow: the dicts are shared, so writing a key of a returned turn is
  visible through the stored history. The claim is about the list only.
\<close>

lemma shallow_copy_shares_turns:
  "turn_content (turns_of (set_content 0 ''changed'' (snd (get_conversation_history 0 example_heap))) 0 ! 0)
     = ''changed''"
  by (simp add: get_conversation_history_def list_copy_def example_heap_def set_content_def turns_of_def)

end
